theory Spec2Isabelle
  imports Complex_Main
begin

section \<open>Python values and errors\<close>

text \<open>
  The notebook is Python on top of numpy and torch. Exceptions are values of
  \<open>py_error\<close>; a function that may raise returns \<open>py_error + 'a\<close>.
  Floating-point numbers are modelled by the reals (rounding is not modelled).
\<close>

datatype py_error = TypeError | ValueError | AttributeError | IndexError | RuntimeError

text \<open>The \<open>radius\<close> argument of \<open>create_radial_mask\<close>: \<open>None\<close> (its default) or a number.\<close>

datatype pyval = PyNone | PyNum real

text \<open>\<open>radius -= 1.\<close>: subtraction from \<open>None\<close> raises \<open>TypeError\<close>.\<close>

fun py_isub :: "pyval \<Rightarrow> real \<Rightarrow> py_error + pyval" where
  "py_isub PyNone d = Inl TypeError"
| "py_isub (PyNum r) d = Inr (PyNum (r - d))"

text \<open>\<open>radius < 0.\<close>: ordering \<open>None\<close> against a float raises \<open>TypeError\<close>.\<close>

fun py_lt :: "pyval \<Rightarrow> real \<Rightarrow> py_error + bool" where
  "py_lt PyNone c = Inl TypeError"
| "py_lt (PyNum r) c = Inr (r < c)"

section \<open>The numpy operations used by \<open>create_radial_mask\<close>\<close>

text \<open>A 2-D array is a list of rows; its shape is carried alongside as a pair.\<close>

definition np_zeros :: "nat \<times> nat \<Rightarrow> real list list" where
  "np_zeros shape = replicate (fst shape) (replicate (snd shape) 0)"

definition np_ones :: "nat \<times> nat \<Rightarrow> real list list" where
  "np_ones shape = replicate (fst shape) (replicate (snd shape) 1)"

text \<open>Multiplication of an array by the scalar \<open>1.0\<close>.\<close>

definition times_scalar :: "real \<Rightarrow> real list list \<Rightarrow> real list list" where
  "times_scalar c m = map (map (\<lambda>v. v * c)) m"

text \<open>
  One axis of \<open>np.ogrid[-a:N - a]\<close>: \<open>ceil((N - a) - (-a)) = N\<close> points, the
  \<open>i\<close>-th being \<open>i * 1 + (-a)\<close>.
\<close>

definition ogrid :: "real \<Rightarrow> nat \<Rightarrow> real list" where
  "ogrid a N = map (\<lambda>i. real i + (- a)) [0..<N]"

text \<open>
  Broadcasting of two axis lengths: equal lengths agree, a length of 1 stretches,
  anything else is numpy's \<open>ValueError\<close>.
\<close>

definition broadcast_dim :: "nat \<Rightarrow> nat \<Rightarrow> nat option" where
  "broadcast_dim m n =
     (if m = n then Some m else if m = 1 then Some n else if n = 1 then Some m else None)"

definition bcast_index :: "nat \<Rightarrow> nat \<Rightarrow> nat" where
  "bcast_index m i = (if m = 1 then 0 else i)"

text \<open>\<open>mask * np.ones(shape)\<close>: a boolean array times a float array, broadcast.\<close>

definition np_mul_mask ::
  "nat \<times> nat \<Rightarrow> bool list list \<Rightarrow> nat \<times> nat \<Rightarrow> real list list \<Rightarrow> py_error + real list list" where
  "np_mul_mask sa A sb B =
     (case (broadcast_dim (fst sa) (fst sb), broadcast_dim (snd sa) (snd sb)) of
        (Some r, Some c) \<Rightarrow>
          Inr (map (\<lambda>i. map (\<lambda>j.
                 (if A ! bcast_index (fst sa) i ! bcast_index (snd sa) j then 1 else 0)
                 * (B ! bcast_index (fst sb) i ! bcast_index (snd sb) j)) [0..<c]) [0..<r])
      | _ \<Rightarrow> Inl ValueError)"

section \<open>\<open>create_radial_mask\<close>\<close>

text \<open>
  \<^verbatim>\<open>
  def create_radial_mask(shape, radius=None):
      N = shape[0]
      radius -= 1.
      if radius < 0.:
          return np.zeros(shape) * 1.0
      elif radius is None:
          radius = int(N / 2)
      a, b = N / 2, N / 2
      y, x = np.ogrid[-a:N - a, -b:N - b]
      mask = x * x + y * y <= radius * radius
      return mask * np.ones(shape) * 1.0
  \<close>
  \<open>y\<close> is a column and \<open>x\<close> a row, so \<open>mask\<close> has shape \<open>(N, N)\<close> with entry
  \<open>[i][j]\<close> comparing \<open>x[j]\<^sup>2 + y[i]\<^sup>2\<close> with the squared radius.
\<close>

definition radial_test :: "nat \<Rightarrow> real \<Rightarrow> bool list list" where
  "radial_test N radius =
     (let a = real N / 2; b = real N / 2
      in map (\<lambda>y. map (\<lambda>x. x * x + y * y \<le> radius * radius) (ogrid b N)) (ogrid a N))"

definition create_radial_mask :: "nat \<times> nat \<Rightarrow> pyval \<Rightarrow> py_error + real list list" where
  "create_radial_mask shape radius =
     (let N = fst shape in
      case py_isub radius 1 of
        Inl e \<Rightarrow> Inl e
      | Inr radius1 \<Rightarrow>
          (case py_lt radius1 0 of
             Inl e \<Rightarrow> Inl e
           | Inr True \<Rightarrow> Inr (times_scalar 1 (np_zeros shape))
           | Inr False \<Rightarrow>
               (let radius2 = (if radius1 = PyNone then PyNum (of_int \<lfloor>real N / 2\<rfloor>) else radius1)
                in case radius2 of
                     PyNone \<Rightarrow> Inl TypeError
                   | PyNum r \<Rightarrow>
                       (case np_mul_mask (N, N) (radial_test N r) shape (np_ones shape) of
                          Inl e \<Rightarrow> Inl e
                        | Inr m \<Rightarrow> Inr (times_scalar 1 m)))))"

text \<open>\<open>num_pixels = mask.sum()\<close>: the sum of all entries.\<close>

definition mask_sum :: "real list list \<Rightarrow> real" where
  "mask_sum m = sum_list (map sum_list m)"

definition count_ones :: "real list list \<Rightarrow> nat" where
  "count_ones m = length (filter (\<lambda>v. v = 1) (concat m))"

section \<open>Floating-point values with infinities and NaN\<close>

text \<open>
  \<open>load_protein\<close> divides by a sum that may be zero, so its voxel values carry the
  special values of IEEE arithmetic: the finite values are reals (rounding, overflow
  and the sign of zero are not modelled), and \<open>PInf\<close>, \<open>NInf\<close> and \<open>NaN\<close> behave as
  numpy's \<open>inf\<close>, \<open>-inf\<close> and \<open>nan\<close>. numpy raises no exception on a division by zero:
  it warns and returns \<open>inf\<close> or \<open>nan\<close>.
\<close>

datatype fl = Fin real | PInf | NInf | NaN

fun fl_add :: "fl \<Rightarrow> fl \<Rightarrow> fl" where
  "fl_add NaN y = NaN"
| "fl_add x NaN = NaN"
| "fl_add (Fin a) (Fin b) = Fin (a + b)"
| "fl_add PInf NInf = NaN"
| "fl_add NInf PInf = NaN"
| "fl_add PInf y = PInf"
| "fl_add x PInf = PInf"
| "fl_add NInf y = NInf"
| "fl_add x NInf = NInf"

text \<open>An infinity times a finite value: the sign follows, and \<open>inf * 0 = nan\<close>.\<close>

definition inf_times :: "fl \<Rightarrow> fl \<Rightarrow> real \<Rightarrow> fl" where
  "inf_times pos neg a = (if a = 0 then NaN else if 0 < a then pos else neg)"

fun fl_mul :: "fl \<Rightarrow> fl \<Rightarrow> fl" where
  "fl_mul NaN y = NaN"
| "fl_mul x NaN = NaN"
| "fl_mul (Fin a) (Fin b) = Fin (a * b)"
| "fl_mul (Fin a) PInf = inf_times PInf NInf a"
| "fl_mul (Fin a) NInf = inf_times NInf PInf a"
| "fl_mul PInf (Fin b) = inf_times PInf NInf b"
| "fl_mul NInf (Fin b) = inf_times NInf PInf b"
| "fl_mul PInf PInf = PInf"
| "fl_mul PInf NInf = NInf"
| "fl_mul NInf PInf = NInf"
| "fl_mul NInf NInf = PInf"

fun fl_div :: "fl \<Rightarrow> fl \<Rightarrow> fl" where
  "fl_div NaN y = NaN"
| "fl_div x NaN = NaN"
| "fl_div (Fin a) (Fin b) =
     (if b = 0 then (if a = 0 then NaN else if 0 < a then PInf else NInf) else Fin (a / b))"
| "fl_div (Fin a) PInf = Fin 0"
| "fl_div (Fin a) NInf = Fin 0"
| "fl_div PInf (Fin b) = (if 0 \<le> b then PInf else NInf)"
| "fl_div NInf (Fin b) = (if 0 \<le> b then NInf else PInf)"
| "fl_div PInf PInf = NaN"
| "fl_div PInf NInf = NaN"
| "fl_div NInf PInf = NaN"
| "fl_div NInf NInf = NaN"

text \<open>\<open>v < 0\<close>: every comparison with \<open>nan\<close> is false.\<close>

fun fl_negative :: "fl \<Rightarrow> bool" where
  "fl_negative (Fin a) = (a < 0)"
| "fl_negative NInf = True"
| "fl_negative PInf = False"
| "fl_negative NaN = False"

section \<open>3-D arrays\<close>

text \<open>
  A 3-D numpy array: its shape and its entries, \<open>vdata M ! i ! j ! k\<close> being
  \<open>M[i, j, k]\<close>. \<open>wf_vol\<close> says that the nested lists have the lengths of the shape.
\<close>

record vol =
  vshape :: "nat \<times> nat \<times> nat"
  vdata :: "fl list list list"

definition wf_vol :: "vol \<Rightarrow> bool" where
  "wf_vol M =
     (case vshape M of (n0, n1, n2) \<Rightarrow>
        length (vdata M) = n0
        \<and> list_all (\<lambda>plane. length plane = n1 \<and> list_all (\<lambda>row. length row = n2) plane) (vdata M))"

definition map3 :: "(fl \<Rightarrow> fl) \<Rightarrow> vol \<Rightarrow> vol" where
  "map3 f M = M\<lparr>vdata := map (map (map f)) (vdata M)\<rparr>"

text \<open>\<open>A * B\<close> with numpy broadcasting on each of the three axes.\<close>

definition np_mul3 :: "vol \<Rightarrow> vol \<Rightarrow> py_error + vol" where
  "np_mul3 A B =
     (case (vshape A, vshape B) of ((a0, a1, a2), (b0, b1, b2)) \<Rightarrow>
        (case (broadcast_dim a0 b0, broadcast_dim a1 b1, broadcast_dim a2 b2) of
           (Some n0, Some n1, Some n2) \<Rightarrow>
             Inr \<lparr>vshape = (n0, n1, n2),
                  vdata = map (\<lambda>i. map (\<lambda>j. map (\<lambda>k.
                            fl_mul (vdata A ! bcast_index a0 i ! bcast_index a1 j ! bcast_index a2 k)
                                   (vdata B ! bcast_index b0 i ! bcast_index b1 j ! bcast_index b2 k))
                            [0..<n2]) [0..<n1]) [0..<n0]\<rparr>
         | _ \<Rightarrow> Inl ValueError))"

text \<open>\<open>M.sum()\<close>: the sum of all entries (0 for an empty array).\<close>

definition vol_sum :: "vol \<Rightarrow> fl" where
  "vol_sum M = foldr fl_add (concat (concat (vdata M))) (Fin 0)"

text \<open>
  The three views of the 1-D array \<open>premult\<close>: \<open>reshape((1, 1, -1))\<close>,
  \<open>reshape((1, -1, 1))\<close> and \<open>reshape((-1, 1, 1))\<close>.
\<close>

definition reshape_1_1_n :: "fl list \<Rightarrow> vol" where
  "reshape_1_1_n p = \<lparr>vshape = (1, 1, length p), vdata = [[p]]\<rparr>"

definition reshape_1_n_1 :: "fl list \<Rightarrow> vol" where
  "reshape_1_n_1 p = \<lparr>vshape = (1, length p, 1), vdata = [map (\<lambda>x. [x]) p]\<rparr>"

definition reshape_n_1_1 :: "fl list \<Rightarrow> vol" where
  "reshape_n_1_1 p = \<lparr>vshape = (length p, 1, 1), vdata = map (\<lambda>x. [[x]]) p\<rparr>"

section \<open>\<open>load_protein\<close>\<close>

text \<open>
  \<^verbatim>\<open>
  def load_protein(path, total_mass, D):
      M = readMRC(path)
      kernel = 'linear'
      ksize = 2
      premult = compute_premultiplier(D, kernel, ksize)
      premult = premult.reshape((1, 1, -1)) * premult.reshape((1, -1, 1)) * premult.reshape((-1, 1, 1))
      window(M, 'circle')
      M[M < 0] = 0
      if total_mass is not None:
          M *= float(total_mass) / M.sum()
      structure = real_to_fspace(M * premult)
      structure = np.concatenate((np.array(structure.real, ndmin=4).T,
                                  np.array(structure.imag, ndmin=4).T), axis=3)
      return torch.tensor(structure).unsqueeze(0).permute(0, 4, 1, 2, 3)
  \<close>
  \<open>readMRC\<close>, \<open>compute_premultiplier\<close>, \<open>window\<close> and \<open>real_to_fspace\<close> are imported
  from the module \<open>third_party\<close>; the model takes them as parameters. \<open>window\<close> changes
  \<open>M\<close> in place, so here it returns the changed array; \<open>real_to_fspace\<close> returns the
  real and the imaginary part of the transform.
\<close>

record third_party =
  readMRC :: "string \<Rightarrow> vol"
  compute_premultiplier :: "nat \<Rightarrow> string \<Rightarrow> nat \<Rightarrow> fl list"
  window :: "vol \<Rightarrow> string \<Rightarrow> vol"
  real_to_fspace :: "vol \<Rightarrow> vol \<times> vol"

text \<open>The separable premultiplier: the product of the three views, left to right.\<close>

definition premult3 :: "fl list \<Rightarrow> py_error + vol" where
  "premult3 p =
     (case np_mul3 (reshape_1_1_n p) (reshape_1_n_1 p) of
        Inl e \<Rightarrow> Inl e
      | Inr q \<Rightarrow> np_mul3 q (reshape_n_1_1 p))"

text \<open>\<open>M[M < 0] = 0\<close>.\<close>

definition clamp_negative :: "vol \<Rightarrow> vol" where
  "clamp_negative M = map3 (\<lambda>v. if fl_negative v then Fin 0 else v) M"

text \<open>\<open>if total_mass is not None: M *= float(total_mass) / M.sum()\<close>.\<close>

definition mass_normalize :: "real option \<Rightarrow> vol \<Rightarrow> vol" where
  "mass_normalize total_mass M =
     (case total_mass of
        None \<Rightarrow> M
      | Some m \<Rightarrow> (let scale = fl_div (Fin m) (vol_sum M) in map3 (\<lambda>v. fl_mul v scale) M))"

text \<open>
  The returned tensor has shape \<open>(1, 2, n2, n1, n0)\<close>: entry \<open>[0][c][k][j][i]\<close> is the real
  (\<open>c = 0\<close>) or imaginary (\<open>c = 1\<close>) part of \<open>structure[i, j, k]\<close>.
\<close>

definition transpose3 :: "vol \<Rightarrow> fl list list list" where
  "transpose3 V =
     (case vshape V of (n0, n1, n2) \<Rightarrow>
        map (\<lambda>k. map (\<lambda>j. map (\<lambda>i. vdata V ! i ! j ! k) [0..<n0]) [0..<n1]) [0..<n2])"

definition pack_structure :: "vol \<times> vol \<Rightarrow> fl list list list list list" where
  "pack_structure structure = [[transpose3 (fst structure), transpose3 (snd structure)]]"

definition load_protein ::
  "third_party \<Rightarrow> string \<Rightarrow> real option \<Rightarrow> nat \<Rightarrow> py_error + fl list list list list list" where
  "load_protein tp path total_mass D =
     (let M = readMRC tp path;
          kernel = ''linear'';
          ksize = 2;
          premult = compute_premultiplier tp D kernel ksize
      in case premult3 premult of
           Inl e \<Rightarrow> Inl e
         | Inr premult' \<Rightarrow>
             (let M1 = window tp M ''circle'';
                  M2 = clamp_negative M1;
                  M3 = mass_normalize total_mass M2
              in case np_mul3 M3 premult' of
                   Inl e \<Rightarrow> Inl e
                 | Inr X \<Rightarrow> Inr (pack_structure (real_to_fspace tp X))))"

subsection \<open>Concrete instances of the imported functions\<close>

text \<open>
  \<open>stub_third_party V\<close> is one possible behaviour of the imported functions, used to
  evaluate \<open>load_protein\<close> on small volumes: the file holds the volume \<open>V\<close>, the
  premultiplier of axis index \<open>i\<close> is \<open>i + 1\<close>, the window leaves the volume as it is, and
  the transform returns its input as the real part with a zero imaginary part. The
  general theorems below hold for every behaviour of the four functions.
\<close>

definition stub_third_party :: "vol \<Rightarrow> third_party" where
  "stub_third_party V =
     \<lparr>readMRC = (\<lambda>path. V),
      compute_premultiplier = (\<lambda>D kernel ksize. map (\<lambda>i. Fin (real i + 1)) [0..<D]),
      window = (\<lambda>M shape. M),
      real_to_fspace = (\<lambda>X. (X, map3 (\<lambda>v. fl_mul v (Fin 0)) X))\<rparr>"

definition example_volume :: vol where
  "example_volume =
     \<lparr>vshape = (2, 2, 2),
      vdata = [[[Fin 1, Fin (- 1)], [Fin 0, Fin 3]], [[Fin 2, Fin 0], [Fin 0, Fin 2]]]\<rparr>"

definition zero_volume :: vol where
  "zero_volume =
     \<lparr>vshape = (2, 2, 2),
      vdata = [[[Fin 0, Fin 0], [Fin 0, Fin 0]], [[Fin 0, Fin 0], [Fin 0, Fin 0]]]\<rparr>"

section \<open>The training loop\<close>

subsection \<open>Tensors, the observation distribution and the log-likelihood\<close>

text \<open>
  An observation and a projection are tensors of shape \<open>(2, D, D)\<close>, the real and the
  imaginary channel of a Fourier-domain image (the leading batch axis of length 1 is
  left out). The distribution returned by the observation model is a
  \<open>torch.distributions.Normal\<close> with a tensor \<open>loc\<close> and a scalar \<open>scale\<close>.
\<close>

type_synonym image = "real list list list"

record 's gaussian =
  loc :: 's
  scale :: real

text \<open>
  \<open>Normal.log_prob\<close>, elementwise:
  \<^verbatim>\<open>-((value - loc) ** 2) / (2 * var) - log_scale - math.log(math.sqrt(2 * math.pi))\<close>.
\<close>

definition log_prob_elem :: "real \<Rightarrow> real \<Rightarrow> real \<Rightarrow> real" where
  "log_prob_elem \<mu> \<sigma> x = - ((x - \<mu>)\<^sup>2) / (2 * \<sigma>\<^sup>2) - ln \<sigma> - ln (sqrt (2 * pi))"

definition normal_log_prob :: "image gaussian \<Rightarrow> image \<Rightarrow> image" where
  "normal_log_prob odist x =
     map2 (map2 (map2 (\<lambda>\<mu> v. log_prob_elem \<mu> (scale odist) v))) (loc odist) x"

text \<open>\<open>.sum()\<close> over all entries of a tensor.\<close>

definition tensor_sum :: "image \<Rightarrow> real" where
  "tensor_sum x = sum_list (map (\<lambda>channel. sum_list (map sum_list channel)) x)"

text \<open>
  \<open>observation_dist.log_prob(value)\<close> as Python evaluates it: the attribute lookup on
  \<open>None\<close> raises \<open>AttributeError\<close>.
\<close>

definition py_log_prob :: "image gaussian option \<Rightarrow> image \<Rightarrow> py_error + image" where
  "py_log_prob observation_dist x =
     (case observation_dist of
        None \<Rightarrow> Inl AttributeError
      | Some odist \<Rightarrow> Inr (normal_log_prob odist x))"

text \<open>
  \<^verbatim>\<open>conditional_loglikelihood = observation_dist.log_prob(observations[idx].unsqueeze(0)).sum() / num_pixels\<close>.
  The sum runs over every entry of the tensor; the mask enters only through
  \<open>num_pixels = mask.sum()\<close>.
\<close>

definition conditional_loglikelihood ::
  "image gaussian option \<Rightarrow> image \<Rightarrow> real \<Rightarrow> py_error + real" where
  "conditional_loglikelihood observation_dist observation num_pixels =
     (case py_log_prob observation_dist observation of
        Inl e \<Rightarrow> Inl e
      | Inr lp \<Rightarrow> Inr (tensor_sum lp / num_pixels))"

subsection \<open>Parameters, gradients and optimizers\<close>

text \<open>
  The two leaf parameters of the notebook, each with its accumulated gradient, and the
  list \<open>optimizer\<close> of optimizers, each owning a list of parameters and carrying its own
  internal state. A cleared gradient is \<open>None\<close>: \<open>zero_grad()\<close> resets \<open>.grad\<close> to \<open>None\<close> (or,
  in older versions of torch, to zeros, onto which \<open>backward()\<close> accumulates the same
  gradient).
\<close>

datatype param_id = ProteinLoc | ProteinLogScale

record 'o optim =
  opt_params :: "param_id list"
  opt_state :: 'o

text \<open>
  The steps of an iteration, recorded in the order in which they are executed:
  sampling, the observation model, the loss, \<open>loss.backward()\<close>, and for the optimizer at
  position \<open>k\<close> of the list its \<open>step()\<close> and its \<open>zero_grad()\<close>.
\<close>

datatype event = EvSample | EvObserve | EvLoss | EvBackward | EvStep nat | EvZeroGrad nat

record ('o, 'g) train_state =
  param_value :: "param_id \<Rightarrow> real list"
  grads :: "param_id \<Rightarrow> real list option"
  optimizer :: "'o optim list"
  rng :: 'g
  error :: real
  trace :: "event list"

text \<open>
  What the loop calls but the notebook does not define: the random index
  (\<open>random.randint\<close>), the standard normal noise behind \<open>rsample\<close>, \<open>rotmat3D_EA\<close> and the
  observation model (imported modules), the gradients that autograd computes for the
  loss of the iteration, and the update rule of Adam for one parameter. The answer of
  autograd is \<open>None\<close> when the loss has no gradient graph (it does not depend on any
  tensor that requires a gradient); otherwise it gives, for each parameter, the gradient
  of the loss, or \<open>None\<close> for a parameter the graph of the loss does not reach.
\<close>

record ('o, 'g, 'r) collaborators =
  env_randint :: "'g \<Rightarrow> nat \<Rightarrow> nat \<times> 'g"
  env_standard_normal :: "'g \<Rightarrow> nat \<Rightarrow> real list \<times> 'g"
  env_rotmat3D_EA :: "real list \<Rightarrow> 'r"
  env_observation_model :: "real list \<Rightarrow> 'r \<Rightarrow> real list \<Rightarrow> image \<times> image gaussian option"
  env_autograd ::
    "(param_id \<Rightarrow> real list) \<Rightarrow> real list \<Rightarrow> nat \<Rightarrow> (param_id \<Rightarrow> real list option) option"
  env_adam :: "'o \<Rightarrow> param_id \<Rightarrow> real list \<Rightarrow> real list \<Rightarrow> real list \<times> 'o"

text \<open>
  The three tensors returned by \<open>load_dataset\<close>; the field \<open>translation_vectors\<close> is the
  notebook's variable \<open>translations\<close>.
\<close>

record dataset =
  observations :: "image list"
  rotation_representations :: "real list list"
  translation_vectors :: "real list list"

text \<open>\<open>F.softplus\<close> with its defaults \<open>beta = 1\<close>, \<open>threshold = 20\<close>.\<close>

definition softplus :: "real \<Rightarrow> real" where
  "softplus x = (if 20 < x then x else ln (1 + exp x))"

text \<open>\<open>Normal(loc, scale).rsample\<close>: \<open>loc + eps * scale\<close> for standard normal noise \<open>eps\<close>.\<close>

definition rsample :: "real list \<Rightarrow> real list \<Rightarrow> real list \<Rightarrow> real list" where
  "rsample location scales eps = map2 (\<lambda>l (e, s). l + e * s) location (zip eps scales)"

text \<open>
  An exception leaves the loop together with the state reached when it was raised.
\<close>

type_synonym ('o, 'g) outcome = "py_error \<times> ('o, 'g) train_state + ('o, 'g) train_state"

text \<open>
  \<open>loss.backward()\<close>: torch raises \<open>RuntimeError\<close> when the loss has no gradient graph.
  Otherwise the gradient of the loss with respect to each parameter the graph reaches is
  added to the gradient that parameter has accumulated so far; the gradient of a
  parameter the graph does not reach is left as it is.
\<close>

definition accumulate :: "real list option \<Rightarrow> real list \<Rightarrow> real list" where
  "accumulate old g = (case old of None \<Rightarrow> g | Some a \<Rightarrow> map2 (+) a g)"

definition backward ::
  "(param_id \<Rightarrow> real list option) option \<Rightarrow> ('o, 'g) train_state \<Rightarrow> ('o, 'g) outcome" where
  "backward autograd s =
     (case autograd of
        None \<Rightarrow> Inl (RuntimeError, s)
      | Some g \<Rightarrow>
          Inr (s\<lparr>grads := (\<lambda>p. case g p of
                                     None \<Rightarrow> grads s p
                                   | Some v \<Rightarrow> Some (accumulate (grads s p) v)),
                 trace := trace s @ [EvBackward]\<rparr>))"

text \<open>
  \<open>opt.step()\<close>: every parameter of the optimizer that has a gradient is updated, in
  order. \<open>opt.zero_grad()\<close>: the gradients of the parameters of the optimizer are cleared.
\<close>

fun opt_step ::
  "('o \<Rightarrow> param_id \<Rightarrow> real list \<Rightarrow> real list \<Rightarrow> real list \<times> 'o) \<Rightarrow>
   (param_id \<Rightarrow> real list option) \<Rightarrow> param_id list \<Rightarrow>
   'o \<times> (param_id \<Rightarrow> real list) \<Rightarrow> 'o \<times> (param_id \<Rightarrow> real list)" where
  "opt_step adam gr [] (st, ps) = (st, ps)"
| "opt_step adam gr (p # rest) (st, ps) =
     (case gr p of
        None \<Rightarrow> opt_step adam gr rest (st, ps)
      | Some g \<Rightarrow> (case adam st p (ps p) g of (v, st') \<Rightarrow> opt_step adam gr rest (st', ps(p := v))))"

definition opt_zero_grad ::
  "param_id list \<Rightarrow> (param_id \<Rightarrow> real list option) \<Rightarrow> (param_id \<Rightarrow> real list option)" where
  "opt_zero_grad ps gr = (\<lambda>p. if p \<in> set ps then None else gr p)"

text \<open>
  \<^verbatim>\<open>
  def optimizer_grad_step(optimizer):
      for opt in optimizer:
          opt.step()
          opt.zero_grad()
      return optimizer
  \<close>
  \<open>optimizer_loop\<close> is the \<open>for\<close> loop over the optimizers still to be visited, \<open>k\<close> being
  the position of the first of them in the list.
\<close>

fun optimizer_loop ::
  "('o \<Rightarrow> param_id \<Rightarrow> real list \<Rightarrow> real list \<Rightarrow> real list \<times> 'o) \<Rightarrow> nat \<Rightarrow> 'o optim list \<Rightarrow>
   ('o, 'g) train_state \<Rightarrow> 'o optim list \<times> ('o, 'g) train_state" where
  "optimizer_loop adam k [] s = ([], s)"
| "optimizer_loop adam k (opt # rest) s =
     (case opt_step adam (grads s) (opt_params opt) (opt_state opt, param_value s) of
        (st', ps') \<Rightarrow>
          (let s1 = s\<lparr>param_value := ps', trace := trace s @ [EvStep k]\<rparr>;
               s2 = s1\<lparr>grads := opt_zero_grad (opt_params opt) (grads s1),
                        trace := trace s1 @ [EvZeroGrad k]\<rparr>
           in case optimizer_loop adam (Suc k) rest s2 of
                (rest', s3) \<Rightarrow> (opt\<lparr>opt_state := st'\<rparr> # rest', s3)))"

definition optimizer_grad_step ::
  "('o, 'g, 'r) collaborators \<Rightarrow> ('o, 'g) train_state \<Rightarrow> ('o, 'g) train_state" where
  "optimizer_grad_step env s =
     (case optimizer_loop (env_adam env) 0 (optimizer s) s of
        (opts', s') \<Rightarrow> s'\<lparr>optimizer := opts'\<rparr>)"

subsection \<open>One iteration and the loop\<close>

text \<open>
  \<^verbatim>\<open>
  for iteration in range(num_iterations):
      idx = random.randint(0, num_data_points)
      protein_dist = distributions.Normal(loc=protein_loc, scale=F.softplus(protein_log_scale))
      protein_sample = protein_dist.rsample((1,))
      t = translations[idx] / D
      R = rotmat3D_EA(rotation_representations[idx] / 180.0 * np.pi)
      projection, observation_dist = observation_model(protein_sample, R, t)
      conditional_loglikelihood = observation_dist.log_prob(observations[idx].unsqueeze(0)).sum() / num_pixels
      loss = -conditional_loglikelihood
      loss.backward()
      optimizer_grad_step(optimizer)
      error += loss.detach().cpu().numpy()
  \<close>
  \<open>random.randint(0, 0)\<close> raises \<open>ValueError\<close>, an index outside the data raises
  \<open>IndexError\<close>, \<open>observation_dist.log_prob\<close> on \<open>None\<close> raises \<open>AttributeError\<close>, and
  \<open>loss.backward()\<close> on a loss without a gradient graph raises \<open>RuntimeError\<close>.
\<close>

definition train_iteration ::
  "('o, 'g, 'r) collaborators \<Rightarrow> dataset \<Rightarrow> real \<Rightarrow> real \<Rightarrow> ('o, 'g) train_state \<Rightarrow>
   ('o, 'g) outcome" where
  "train_iteration env data D num_pixels s =
     (let num_data_points = length (observations data) in
      if num_data_points = 0 then Inl (ValueError, s)
      else
        (case env_randint env (rng s) num_data_points of (idx, g1) \<Rightarrow>
           if \<not> (idx < length (observations data) \<and> idx < length (translation_vectors data)
                  \<and> idx < length (rotation_representations data))
           then Inl (IndexError, s\<lparr>rng := g1\<rparr>)
           else
             (let protein_loc = param_value s ProteinLoc;
                  protein_log_scale = param_value s ProteinLogScale
              in case env_standard_normal env g1 (length protein_loc) of (eps, g2) \<Rightarrow>
                (let protein_sample = rsample protein_loc (map softplus protein_log_scale) eps;
                     s1 = s\<lparr>rng := g2, trace := trace s @ [EvSample]\<rparr>;
                     t = map (\<lambda>x. x / D) (translation_vectors data ! idx);
                     R = env_rotmat3D_EA env
                           (map (\<lambda>a. a / 180 * pi) (rotation_representations data ! idx))
                 in case env_observation_model env protein_sample R t of
                      (projection, observation_dist) \<Rightarrow>
                        (let s2 = s1\<lparr>trace := trace s1 @ [EvObserve]\<rparr>
                         in case conditional_loglikelihood observation_dist
                                   (observations data ! idx) num_pixels of
                              Inl e \<Rightarrow> Inl (e, s2)
                            | Inr cll \<Rightarrow>
                                (let loss = - cll;
                                     s3 = s2\<lparr>trace := trace s2 @ [EvLoss]\<rparr>
                                 in case backward (env_autograd env (param_value s) eps idx) s3 of
                                      Inl es \<Rightarrow> Inl es
                                    | Inr s4 \<Rightarrow>
                                        (let s5 = optimizer_grad_step env s4
                                         in Inr (s5\<lparr>error := error s5 + loss\<rparr>))))))))"


subsection \<open>The steps of one iteration and a concrete run\<close>











section \<open>The imported operators, modelled from the specification\<close>

text \<open>
  The modules \<open>observation_model\<close> and \<open>operators\<close> are imported by the notebook but are
  not among the sources. The definitions of this section follow the specification's
  description of them, over exact real and complex arithmetic.
\<close>

subsection \<open>TranslationPhaseShifter\<close>

text \<open>
  Modelled from the spec: the translation step of the observation model (module
  \<open>observation_model\<close>, missing). ``Given a 2-D Fourier-domain slice of shape \<open>D \<times> D\<close> and a
  2-D translation vector in fractional-pixel units, multiply every frequency coefficient
  \<open>(u, v)\<close> by \<open>exp(-2\<pi>i\<cdot>(u\<cdot>tx + v\<cdot>ty)/D)\<close>, where \<open>(u, v)\<close> range over the slice's frequency
  indices centered at zero'', the origin being at index \<open>D/2\<close>. The slice is a list of
  rows; \<open>u\<close> belongs to the column and \<open>v\<close> to the row.
\<close>

primrec map_index_from :: "nat \<Rightarrow> (nat \<Rightarrow> 'a \<Rightarrow> 'b) \<Rightarrow> 'a list \<Rightarrow> 'b list" where
  "map_index_from n f [] = []"
| "map_index_from n f (x # xs) = f n x # map_index_from (Suc n) f xs"

definition centered_index :: "nat \<Rightarrow> nat \<Rightarrow> real" where
  "centered_index D i = real i - real (D div 2)"

definition phase_ramp :: "nat \<Rightarrow> real \<times> real \<Rightarrow> real \<Rightarrow> real \<Rightarrow> complex" where
  "phase_ramp D t u v = cis (- 2 * pi * (u * fst t + v * snd t) / real D)"

definition TranslationPhaseShifter ::
  "nat \<Rightarrow> complex list list \<Rightarrow> real \<times> real \<Rightarrow> complex list list" where
  "TranslationPhaseShifter D slice t =
     map_index_from 0 (\<lambda>i row.
       map_index_from 0 (\<lambda>j c. c * phase_ramp D t (centered_index D j) (centered_index D i)) row)
       slice"

subsection \<open>ObservationModel\<close>

text \<open>
  Modelled from the spec: \<open>ScientificImagingObservationModel\<close> (module
  \<open>observation_model\<close>, missing). ``Steps: (a) run CentralSliceProjector, (b) run
  TranslationPhaseShifter, (c) if \<open>\<sigma> > 0\<close>, construct a per-pixel independent Gaussian
  distribution with the phase-shifted slice as mean and \<open>\<sigma>\<close> as standard deviation.
  Returns: the noiseless projection and the distribution object (or none, if \<open>\<sigma> = 0\<close>).''
  The projector and the phase shifter are parameters.
\<close>

definition ObservationModel ::
  "('v \<Rightarrow> 'r \<Rightarrow> 's) \<Rightarrow> ('s \<Rightarrow> 't \<Rightarrow> 's) \<Rightarrow> real \<Rightarrow> 'v \<Rightarrow> 'r \<Rightarrow> 't \<Rightarrow> 's \<times> 's gaussian option" where
  "ObservationModel CentralSliceProjector PhaseShifter \<sigma> volume rotation translation =
     (let slice = CentralSliceProjector volume rotation;
          projection = PhaseShifter slice translation
      in (projection, if 0 < \<sigma> then Some \<lparr>loc = projection, scale = \<sigma>\<rparr> else None))"

subsection \<open>RotationParameterization\<close>

text \<open>
  Modelled from the spec: \<open>rotmat3D_EA\<close> (module \<open>operators\<close>, missing). It ``takes a batch
  of 3-parameter angle vectors and returns a batch of \<open>3 \<times> 3\<close> rotation matrices via a fixed
  composition of elementary rotations about three axes''. The specification leaves the
  axis order open, so the convention (the three axes, in the order of the product) is a
  parameter.
\<close>

type_synonym vec3 = "real \<times> real \<times> real"
type_synonym mat3 = "vec3 \<times> vec3 \<times> vec3"

datatype axis = AxisX | AxisY | AxisZ

fun elementary_rotation :: "axis \<Rightarrow> real \<Rightarrow> mat3" where
  "elementary_rotation AxisX a = ((1, 0, 0), (0, cos a, - sin a), (0, sin a, cos a))"
| "elementary_rotation AxisY a = ((cos a, 0, sin a), (0, 1, 0), (- sin a, 0, cos a))"
| "elementary_rotation AxisZ a = ((cos a, - sin a, 0), (sin a, cos a, 0), (0, 0, 1))"

fun mat_mul :: "mat3 \<Rightarrow> mat3 \<Rightarrow> mat3" where
  "mat_mul ((a11, a12, a13), (a21, a22, a23), (a31, a32, a33))
           ((b11, b12, b13), (b21, b22, b23), (b31, b32, b33)) =
     ((a11 * b11 + a12 * b21 + a13 * b31, a11 * b12 + a12 * b22 + a13 * b32, a11 * b13 + a12 * b23 + a13 * b33),
      (a21 * b11 + a22 * b21 + a23 * b31, a21 * b12 + a22 * b22 + a23 * b32, a21 * b13 + a22 * b23 + a23 * b33),
      (a31 * b11 + a32 * b21 + a33 * b31, a31 * b12 + a32 * b22 + a33 * b32, a31 * b13 + a32 * b23 + a33 * b33))"

fun mat_transpose :: "mat3 \<Rightarrow> mat3" where
  "mat_transpose ((a11, a12, a13), (a21, a22, a23), (a31, a32, a33)) =
     ((a11, a21, a31), (a12, a22, a32), (a13, a23, a33))"

fun mat_det :: "mat3 \<Rightarrow> real" where
  "mat_det ((a11, a12, a13), (a21, a22, a23), (a31, a32, a33)) =
     a11 * (a22 * a33 - a23 * a32) - a12 * (a21 * a33 - a23 * a31) + a13 * (a21 * a32 - a22 * a31)"

definition mat_identity :: mat3 where
  "mat_identity = ((1, 0, 0), (0, 1, 0), (0, 0, 1))"

definition rotmat3D_EA :: "axis \<times> axis \<times> axis \<Rightarrow> vec3 list \<Rightarrow> mat3 list" where
  "rotmat3D_EA convention batch =
     (case convention of (ax1, ax2, ax3) \<Rightarrow>
        map (\<lambda>(phi, theta, psi).
               mat_mul (mat_mul (elementary_rotation ax1 phi) (elementary_rotation ax2 theta))
                       (elementary_rotation ax3 psi)) batch)"

text \<open>A rotation matrix: \<open>R \<cdot> R\<^sup>T\<close> is the identity and the determinant is \<open>+1\<close>.\<close>

definition orthonormal :: "mat3 \<Rightarrow> bool" where
  "orthonormal R \<longleftrightarrow> mat_mul R (mat_transpose R) = mat_identity \<and> mat_det R = 1"

section \<open>Auxiliary functions for counting lattice points\<close>

text \<open>
  These two functions are not part of the notebook. \<open>isq c n\<close> searches downwards from
  \<open>n\<close> for the integer square root of \<open>c\<close>; \<open>row_count c\<close> is the number of
  integers \<open>x\<close> with \<open>x\<^sup>2 \<le> c\<close> when \<open>c < 64\<^sup>2\<close>. They let the 1-valued entries
  of the \<open>128 \<times> 128\<close> mask be counted row by row.
\<close>

fun isq :: "int \<Rightarrow> nat \<Rightarrow> nat" where
  "isq c 0 = 0"
| "isq c (Suc s) = (if int (Suc s) * int (Suc s) \<le> c then Suc s else isq c s)"

definition row_count :: "int \<Rightarrow> nat" where
  "row_count c = (if c < 0 then 0 else 2 * isq c 63 + 1)"

section \<open>Properties of \<open>create_radial_mask\<close>\<close>

subsection \<open>The mask entries\<close>

lemma bcast_index_lt: "i < m \<Longrightarrow> bcast_index m i = i"
  by (auto simp: bcast_index_def)

lemma radial_test_nth:
  "i < N \<Longrightarrow> j < N \<Longrightarrow>
   radial_test N r ! i ! j =
     ((real j - real N / 2) * (real j - real N / 2) + (real i - real N / 2) * (real i - real N / 2) \<le> r * r)"
  by (simp add: radial_test_def ogrid_def Let_def)

lemma np_mul_mask_square:
  "np_mul_mask (N, N) (radial_test N r) (N, N) (np_ones (N, N)) =
     Inr (map (\<lambda>i. map (\<lambda>j.
        if (real j - real N / 2) * (real j - real N / 2) + (real i - real N / 2) * (real i - real N / 2) \<le> r * r
        then 1 else 0) [0..<N]) [0..<N])"
  by (simp add: np_mul_mask_def broadcast_dim_def bcast_index_lt radial_test_nth np_ones_def cong: map_cong)

lemma create_radial_mask_square:
  "1 \<le> r \<Longrightarrow> create_radial_mask (N, N) (PyNum r) =
     Inr (map (\<lambda>i. map (\<lambda>j.
        if (real j - real N / 2) * (real j - real N / 2) + (real i - real N / 2) * (real i - real N / 2) \<le> (r - 1) * (r - 1)
        then 1 else 0) [0..<N]) [0..<N])"
  by (simp add: create_radial_mask_def np_mul_mask_square times_scalar_def o_def)

subsection \<open>Counting the entries of a row\<close>

lemma isq_le: "isq c n \<le> n"
  by (induction n) auto

lemma isq_spec:
  "0 \<le> c \<Longrightarrow> c < (int n + 1) * (int n + 1) \<Longrightarrow>
   int (isq c n) * int (isq c n) \<le> c \<and> c < (int (isq c n) + 1) * (int (isq c n) + 1)"
  by (induction n) (auto simp: algebra_simps)

lemma sq_le_iff:
  fixes x :: int and s :: nat
  assumes "int s * int s \<le> c" "c < (int s + 1) * (int s + 1)"
  shows "x * x \<le> c \<longleftrightarrow> \<bar>x\<bar> \<le> int s"
proof
  assume h: "x * x \<le> c"
  show "\<bar>x\<bar> \<le> int s"
  proof (rule ccontr)
    assume "\<not> \<bar>x\<bar> \<le> int s"
    then have "int s + 1 \<le> \<bar>x\<bar>" by simp
    then have "(int s + 1) * (int s + 1) \<le> \<bar>x\<bar> * \<bar>x\<bar>"
      by (intro mult_mono) auto
    then show False using h assms by (simp add: abs_mult_self_eq)
  qed
next
  assume "\<bar>x\<bar> \<le> int s"
  then have "\<bar>x\<bar> * \<bar>x\<bar> \<le> int s * int s"
    by (intro mult_mono) auto
  then show "x * x \<le> c" using assms by (simp add: abs_mult_self_eq)
qed

lemma row_filter_count:
  assumes "int s * int s \<le> c" "c < (int s + 1) * (int s + 1)" "s \<le> 63"
  shows "length (filter (\<lambda>j. (int j - 64) * (int j - 64) \<le> c) [0..<128]) = 2 * s + 1"
proof -
  have "{j. j < 128 \<and> (int j - 64) * (int j - 64) \<le> c} = {64 - s..64 + s}"
    using assms(3) by (auto simp: sq_le_iff[OF assms(1,2)])
  then have "card {j. j < 128 \<and> (int j - 64) * (int j - 64) \<le> c} = 2 * s + 1"
    using assms(3) by simp
  moreover have "length (filter (\<lambda>j. (int j - 64) * (int j - 64) \<le> c) [0..<128])
      = card (set (filter (\<lambda>j. (int j - 64) * (int j - 64) \<le> c) [0..<128]))"
    by (rule distinct_card[symmetric]) simp
  moreover have "set (filter (\<lambda>j. (int j - 64) * (int j - 64) \<le> c) [0..<128])
      = {j. j < 128 \<and> (int j - 64) * (int j - 64) \<le> c}"
    by auto
  ultimately show ?thesis by simp
qed

lemma row_filter_count_neg:
  "c < 0 \<Longrightarrow> length (filter (\<lambda>j. (int j - 64) * (int j - 64) \<le> c) [0..<128]) = 0"
proof -
  assume "c < 0"
  then have "\<And>x::int. \<not> x * x \<le> c"
    by (smt (verit) zero_le_square)
  then show ?thesis by simp
qed

lemma row_count_correct:
  assumes "c < 64 * 64"
  shows "length (filter (\<lambda>j. (int j - 64) * (int j - 64) \<le> c) [0..<128]) = row_count c"
proof (cases "c < 0")
  case True
  then show ?thesis by (simp add: row_count_def row_filter_count_neg)
next
  case False
  then have c0: "0 \<le> c" by simp
  have "c < (int 63 + 1) * (int 63 + 1)" using assms by simp
  from isq_spec[OF c0 this] have
    a: "int (isq c 63) * int (isq c 63) \<le> c" and
    b: "c < (int (isq c 63) + 1) * (int (isq c 63) + 1)" by simp_all
  show ?thesis
    using False row_filter_count[OF a b isq_le] by (simp add: row_count_def)
qed

lemma row_count_total: "sum_list (map (\<lambda>i. row_count (3969 - (int i - 64) * (int i - 64))) [0..<128]) = 12453"
  by code_simp

subsection \<open>Bounds on \<open>\<pi>\<close> from the Maclaurin expansion of the cosine\<close>

lemma sum_lessThan_10:
  fixes f :: "nat \<Rightarrow> real"
  shows "(\<Sum>m<10. f m) = f 0 + f 1 + f 2 + f 3 + f 4 + f 5 + f 6 + f 7 + f 8 + f 9"
  by (simp add: eval_nat_numeral)

lemma cos_poly8:
  fixes x :: real
  shows "(\<Sum>m<10. cos_coeff m * x ^ m) = 1 - x^2 / 2 + x^4 / 24 - x^6 / 720 + x^8 / 40320"
  unfolding sum_lessThan_10 by (simp add: cos_coeff_def fact_numeral)

lemma cos_taylor_bounds:
  fixes x :: real
  assumes "0 < x"
  shows "1 - x^2 / 2 + x^4 / 24 - x^6 / 720 + x^8 / 40320 - x^10 / 3628800 \<le> cos x"
    and "cos x \<le> 1 - x^2 / 2 + x^4 / 24 - x^6 / 720 + x^8 / 40320 + x^10 / 3628800"
proof -
  from Maclaurin_cos_expansion2[OF assms, of 10] obtain t where
    t: "cos x = (\<Sum>m<10. cos_coeff m * x ^ m) + (cos (t + 1/2 * real 10 * pi) / fact 10) * x ^ 10"
    by auto
  have f: "fact 10 = (3628800::real)" by (simp add: eval_nat_numeral)
  let ?c = "cos (t + 1/2 * real 10 * pi)"
  have c1: "- 1 \<le> ?c" and c2: "?c \<le> 1" by simp_all
  have x10: "0 \<le> x ^ 10 / 3628800" using assms by simp
  have lo: "- (x ^ 10 / 3628800) \<le> ?c * (x ^ 10 / 3628800)"
    using mult_right_mono[OF c1 x10] by simp
  have hi: "?c * (x ^ 10 / 3628800) \<le> x ^ 10 / 3628800"
    using mult_right_mono[OF c2 x10] by simp
  have e: "cos x = (1 - x^2 / 2 + x^4 / 24 - x^6 / 720 + x^8 / 40320) + ?c * (x ^ 10 / 3628800)"
    using t unfolding cos_poly8 f by simp
  show "1 - x^2 / 2 + x^4 / 24 - x^6 / 720 + x^8 / 40320 - x^10 / 3628800 \<le> cos x"
    using lo e by linarith
  show "cos x \<le> 1 - x^2 / 2 + x^4 / 24 - x^6 / 720 + x^8 / 40320 + x^10 / 3628800"
    using hi e by linarith
qed

lemma pi_lower_bound: "3.1414 < pi"
proof -
  have "0 < cos (15707 / 10000 :: real)"
    using cos_taylor_bounds(1)[of "15707 / 10000"] by (simp add: power_divide)
  moreover have "pi / 2 \<le> 15707 / 10000 \<Longrightarrow> cos (15707 / 10000 :: real) \<le> 0"
  proof -
    assume a: "pi / 2 \<le> 15707 / 10000"
    have "(15707 / 10000 :: real) \<le> pi" using pi_ge_two by simp
    from cos_monotone_0_pi_le[OF _ a this] show ?thesis by simp
  qed
  ultimately have "15707 / 10000 < pi / 2" by fastforce
  then show ?thesis by simp
qed

lemma pi_upper_bound: "pi < 3.1418"
proof -
  have "cos (15709 / 10000 :: real) < 0"
    using cos_taylor_bounds(2)[of "15709 / 10000"] by (simp add: power_divide)
  moreover have "15709 / 10000 \<le> pi / 2 \<Longrightarrow> 0 \<le> cos (15709 / 10000 :: real)"
    by (rule cos_ge_zero) simp_all
  ultimately have "pi / 2 < 15709 / 10000" by fastforce
  then show ?thesis by simp
qed

subsection \<open>The mask of the notebook: shape \<open>(128, 128)\<close>, radius argument 64\<close>

lemma filter_indicator:
  "filter (\<lambda>v. v = 1) (map (\<lambda>j. if P j then 1 else (0::real)) js) = map (\<lambda>j. 1) (filter P js)"
  by (induction js) auto

lemma count_ones_indicator:
  "count_ones (map (\<lambda>i. map (\<lambda>j. if P i j then 1 else 0) js) is) =
     sum_list (map (\<lambda>i. length (filter (P i) js)) is)"
  by (simp add: count_ones_def filter_concat length_concat o_def filter_indicator)

lemma sum_list_indicator:
  "sum_list (map (\<lambda>j. if P j then 1 else (0::real)) js) = real (length (filter P js))"
  by (induction js) auto

lemma mask_sum_indicator:
  "mask_sum (map (\<lambda>i. map (\<lambda>j. if P i j then 1 else 0) js) is) =
     real (sum_list (map (\<lambda>i. length (filter (P i) js)) is))"
  by (induction "is") (simp_all add: mask_sum_def sum_list_indicator)

lemma real_int_disk:
  "((real j - real 128 / 2) * (real j - real 128 / 2) + (real i - real 128 / 2) * (real i - real 128 / 2)
      \<le> (64 - 1) * (64 - 1))
   = ((int j - 64)\<^sup>2 + (int i - 64)\<^sup>2 \<le> 63\<^sup>2)"
proof -
  have "real j - real 128 / 2 = of_int (int j - 64)" "real i - real 128 / 2 = of_int (int i - 64)"
    by simp_all
  then have "(real j - real 128 / 2) * (real j - real 128 / 2) + (real i - real 128 / 2) * (real i - real 128 / 2)
      = of_int ((int j - 64)\<^sup>2 + (int i - 64)\<^sup>2)"
    by (simp add: power2_eq_square)
  moreover have "((64::real) - 1) * (64 - 1) = of_int (63\<^sup>2)" by simp
  ultimately show ?thesis by (simp only: of_int_le_iff)
qed

lemma mask_128_64:
  "create_radial_mask (128, 128) (PyNum 64) =
     Inr (map (\<lambda>i. map (\<lambda>j. if (int j - 64)\<^sup>2 + (int i - 64)\<^sup>2 \<le> 63\<^sup>2 then 1 else 0) [0..<128]) [0..<128])"
  using create_radial_mask_square[of 64 128] by (simp only: real_int_disk)

lemma disk_row_count:
  "length (filter (\<lambda>j. (int j - 64)\<^sup>2 + (int i - 64)\<^sup>2 \<le> 63\<^sup>2) [0..<128])
     = row_count (3969 - (int i - 64) * (int i - 64))"
proof -
  have "(\<lambda>j. (int j - 64)\<^sup>2 + (int i - 64)\<^sup>2 \<le> 63\<^sup>2)
      = (\<lambda>j. (int j - 64) * (int j - 64) \<le> 3969 - (int i - 64) * (int i - 64))"
    by (auto simp: power2_eq_square)
  moreover have "3969 - (int i - 64) * (int i - 64) < 64 * 64"
    using zero_le_square[of "int i - 64"] by linarith
  ultimately show ?thesis by (simp only: row_count_correct)
qed

lemma disk_count:
  "sum_list (map (\<lambda>i. length (filter (\<lambda>j. (int j - 64)\<^sup>2 + (int i - 64)\<^sup>2 \<le> 63\<^sup>2) [0..<128])) [0..<128]) = 12453"
  by (simp only: disk_row_count row_count_total)

lemma pi_disk_gap: "15 < pi * 63\<^sup>2 - 12453" "pi * 63\<^sup>2 - 12453 < 17"
  using pi_lower_bound pi_upper_bound by simp_all

text \<open>
  C1 (as amended). For shape \<open>(128, 128)\<close> and radius argument 64 the mask is 1 exactly at
  the centred indices \<open>(u, v) = (j - 64, i - 64)\<close> with \<open>u\<^sup>2 + v\<^sup>2 \<le> 63\<^sup>2\<close> and 0
  everywhere else. It has 12453 entries equal to 1 (and \<open>mask.sum()\<close> is 12453), which
  is between 15 and 17 less than the area \<open>\<pi> \<cdot> 63\<^sup>2\<close> of the disk.
\<close>

theorem radial_mask_128_64_disk_and_count:
  "(case create_radial_mask (128, 128) (PyNum 64) of
      Inl e \<Rightarrow> False
    | Inr m \<Rightarrow>
        m = map (\<lambda>i. map (\<lambda>j. if (int j - 64)\<^sup>2 + (int i - 64)\<^sup>2 \<le> 63\<^sup>2 then 1 else 0) [0..<128]) [0..<128]
        \<and> count_ones m = 12453 \<and> mask_sum m = 12453
        \<and> 15 < pi * 63\<^sup>2 - real (count_ones m) \<and> pi * 63\<^sup>2 - real (count_ones m) < 17)"
proof -
  let ?m = "map (\<lambda>i. map (\<lambda>j. if (int j - 64)\<^sup>2 + (int i - 64)\<^sup>2 \<le> 63\<^sup>2 then 1 else (0::real)) [0..<128]) [0..<128]"
  have c: "count_ones ?m = 12453"
    by (simp only: count_ones_indicator disk_count)
  have s: "mask_sum ?m = 12453"
    by (simp only: mask_sum_indicator disk_count of_nat_numeral)
  have g: "15 < pi * 63\<^sup>2 - real (12453::nat)" "pi * 63\<^sup>2 - real (12453::nat) < 17"
    using pi_disk_gap by simp_all
  show ?thesis
    by (simp only: mask_128_64 sum.case c s g simp_thms)
qed

text \<open>
  C1 as stated fails in its last part: the number of 1-valued entries is not within
  rounding (not even within 1) of the area of the disk of radius 63.
\<close>

theorem radial_mask_128_64_count_not_area:
  "(case create_radial_mask (128, 128) (PyNum 64) of
      Inl e \<Rightarrow> False
    | Inr m \<Rightarrow> \<not> \<bar>real (count_ones m) - pi * 63\<^sup>2\<bar> \<le> 1)"
proof -
  let ?m = "map (\<lambda>i. map (\<lambda>j. if (int j - 64)\<^sup>2 + (int i - 64)\<^sup>2 \<le> 63\<^sup>2 then 1 else (0::real)) [0..<128]) [0..<128]"
  have c: "count_ones ?m = 12453"
    by (simp only: count_ones_indicator disk_count)
  have g: "\<not> \<bar>real (12453::nat) - pi * 63\<^sup>2\<bar> \<le> 1"
    using pi_disk_gap by simp
  show ?thesis
    by (simp only: mask_128_64 sum.case c g simp_thms)
qed

subsection \<open>The default radius\<close>

lemma py_isub_not_None: "py_isub radius d = Inr radius1 \<Longrightarrow> radius1 \<noteq> PyNone"
  by (cases radius) auto

lemma create_radial_mask_PyNum:
  "create_radial_mask shape (PyNum r) =
     (if r - 1 < 0 then Inr (times_scalar 1 (np_zeros shape))
      else case np_mul_mask (fst shape, fst shape) (radial_test (fst shape) (r - 1)) shape (np_ones shape) of
             Inl e \<Rightarrow> Inl e
           | Inr m \<Rightarrow> Inr (times_scalar 1 m))"
  by (simp add: create_radial_mask_def Let_def)

text \<open>
  C10. With the radius argument omitted (\<open>None\<close>) the call raises \<open>TypeError\<close> at
  \<open>radius -= 1.\<close>, before any mask is built, whatever the shape. The branch
  \<open>elif radius is None\<close> is never taken: the subtraction never yields \<open>None\<close>, and for a
  numeric radius \<open>r\<close> the result is the zero array or the disk of radius \<open>r - 1\<close>,
  never the default \<open>int(N / 2)\<close>.
\<close>

theorem create_radial_mask_default_radius_raises:
  "create_radial_mask shape PyNone = Inl TypeError
   \<and> (\<forall>radius radius1. py_isub radius 1 = Inr radius1 \<longrightarrow> radius1 \<noteq> PyNone)
   \<and> (\<forall>r. create_radial_mask shape (PyNum r) =
         (if r - 1 < 0 then Inr (times_scalar 1 (np_zeros shape))
          else case np_mul_mask (fst shape, fst shape) (radial_test (fst shape) (r - 1)) shape (np_ones shape) of
                 Inl e \<Rightarrow> Inl e
               | Inr m \<Rightarrow> Inr (times_scalar 1 m)))"
proof (intro conjI allI impI)
  show "create_radial_mask shape PyNone = Inl TypeError"
    by (simp add: create_radial_mask_def)
next
  fix radius radius1
  assume "py_isub radius 1 = Inr radius1"
  then show "radius1 \<noteq> PyNone" by (rule py_isub_not_None)
next
  fix r
  show "create_radial_mask shape (PyNum r) =
         (if r - 1 < 0 then Inr (times_scalar 1 (np_zeros shape))
          else case np_mul_mask (fst shape, fst shape) (radial_test (fst shape) (r - 1)) shape (np_ones shape) of
                 Inl e \<Rightarrow> Inl e
               | Inr m \<Rightarrow> Inr (times_scalar 1 m))"
    by (rule create_radial_mask_PyNum)
qed

theorem create_radial_mask_default_radius_raises_witness:
  "create_radial_mask (128, 128) PyNone = Inl TypeError
   \<and> py_isub (PyNum 64) 1 = Inr (PyNum 63) \<and> PyNum 63 \<noteq> PyNone
   \<and> create_radial_mask (128, 128) (PyNum 0) = Inr (times_scalar 1 (np_zeros (128, 128)))"
proof -
  have h: "py_isub (PyNum 64) 1 = Inr (PyNum 63)" by simp
  from create_radial_mask_default_radius_raises[of "(128, 128)"]
  have a: "create_radial_mask (128, 128) PyNone = Inl TypeError"
    and b: "py_isub (PyNum 64) 1 = Inr (PyNum 63) \<longrightarrow> PyNum 63 \<noteq> PyNone"
    and c: "create_radial_mask (128, 128) (PyNum 0) =
         (if (0::real) - 1 < 0 then Inr (times_scalar 1 (np_zeros (128, 128)))
          else case np_mul_mask (fst (128::nat, 128::nat), fst (128::nat, 128::nat))
                 (radial_test (fst (128::nat, 128::nat)) (0 - 1)) (128, 128) (np_ones (128, 128)) of
                 Inl e \<Rightarrow> Inl e
               | Inr m \<Rightarrow> Inr (times_scalar 1 m))"
    by blast+
  from c have c': "create_radial_mask (128, 128) (PyNum 0) = Inr (times_scalar 1 (np_zeros (128, 128)))"
    by simp
  from a b h c' show ?thesis by simp
qed

section \<open>Properties of \<open>load_protein\<close>\<close>

subsection \<open>Broadcasting and the array handed to the transform\<close>

lemma broadcast_dim_simps [simp]:
  "broadcast_dim n n = Some n" "broadcast_dim (Suc 0) n = Some n" "broadcast_dim n (Suc 0) = Some n"
  by (auto simp: broadcast_dim_def)

lemma bcast_index_one [simp]: "bcast_index (Suc 0) i = 0"
  by (simp add: bcast_index_def)

lemma premult3_first_product:
  "np_mul3 (reshape_1_1_n p) (reshape_1_n_1 p) =
     Inr \<lparr>vshape = (1, length p, length p),
          vdata = [map (\<lambda>j. map (\<lambda>k. fl_mul (p ! k) (p ! j)) [0..<length p]) [0..<length p]]\<rparr>"
  by (simp add: np_mul3_def reshape_1_1_n_def reshape_1_n_1_def bcast_index_lt cong: map_cong)

lemma vshape_map3 [simp]: "vshape (map3 f M) = vshape M"
  by (simp add: map3_def)

lemma vdata_map3 [simp]: "vdata (map3 f M) = map (map (map f)) (vdata M)"
  by (simp add: map3_def)

lemma premult3_separable:
  "premult3 p =
     Inr \<lparr>vshape = (length p, length p, length p),
          vdata = map (\<lambda>i. map (\<lambda>j. map (\<lambda>k. fl_mul (fl_mul (p ! k) (p ! j)) (p ! i))
                    [0..<length p]) [0..<length p]) [0..<length p]\<rparr>"
  by (simp add: premult3_def premult3_first_product)
     (simp add: np_mul3_def reshape_n_1_1_def bcast_index_lt cong: map_cong)

lemma np_mul3_same_shape:
  "vshape A = (n0, n1, n2) \<Longrightarrow> vshape B = (n0, n1, n2) \<Longrightarrow>
   np_mul3 A B =
     Inr \<lparr>vshape = (n0, n1, n2),
          vdata = map (\<lambda>i. map (\<lambda>j. map (\<lambda>k. fl_mul (vdata A ! i ! j ! k) (vdata B ! i ! j ! k))
                    [0..<n2]) [0..<n1]) [0..<n0]\<rparr>"
  by (simp add: np_mul3_def bcast_index_lt cong: map_cong)

lemma load_protein_fft_input:
  assumes "vshape (window tp (readMRC tp path) ''circle'') = (D, D, D)"
      and "length (compute_premultiplier tp D ''linear'' 2) = D"
  shows "load_protein tp path total_mass D =
     (let p = compute_premultiplier tp D ''linear'' 2;
          M3 = mass_normalize total_mass (clamp_negative (window tp (readMRC tp path) ''circle''));
          X = \<lparr>vshape = (D, D, D),
               vdata = map (\<lambda>i. map (\<lambda>j. map (\<lambda>k.
                         fl_mul (vdata M3 ! i ! j ! k) (fl_mul (fl_mul (p ! k) (p ! j)) (p ! i)))
                         [0..<D]) [0..<D]) [0..<D]\<rparr>
      in Inr (pack_structure (real_to_fspace tp X)))"
proof -
  let ?p = "compute_premultiplier tp D ''linear'' 2"
  let ?M3 = "mass_normalize total_mass (clamp_negative (window tp (readMRC tp path) ''circle''))"
  have s: "vshape ?M3 = (D, D, D)"
    using assms(1) by (simp add: mass_normalize_def clamp_negative_def Let_def split: option.split)
  have P: "premult3 ?p = Inr \<lparr>vshape = (D, D, D),
          vdata = map (\<lambda>i. map (\<lambda>j. map (\<lambda>k. fl_mul (fl_mul (?p ! k) (?p ! j)) (?p ! i))
                    [0..<D]) [0..<D]) [0..<D]\<rparr>"
    using premult3_separable[of ?p] assms(2) by simp
  have "np_mul3 ?M3 \<lparr>vshape = (D, D, D),
          vdata = map (\<lambda>i. map (\<lambda>j. map (\<lambda>k. fl_mul (fl_mul (?p ! k) (?p ! j)) (?p ! i))
                    [0..<D]) [0..<D]) [0..<D]\<rparr>
     = Inr \<lparr>vshape = (D, D, D),
               vdata = map (\<lambda>i. map (\<lambda>j. map (\<lambda>k.
                         fl_mul (vdata ?M3 ! i ! j ! k) (fl_mul (fl_mul (?p ! k) (?p ! j)) (?p ! i)))
                         [0..<D]) [0..<D]) [0..<D]\<rparr>"
    by (subst np_mul3_same_shape[OF s]) (simp_all cong: map_cong)
  then show ?thesis
    by (simp add: load_protein_def P Let_def)
qed

subsection \<open>A volume that sums to zero\<close>

lemma fl_add_Fin_iff:
  "fl_add x y = Fin s \<longleftrightarrow> (\<exists>a b. x = Fin a \<and> y = Fin b \<and> s = a + b)"
  by (cases x; cases y) auto

lemma nonneg_sum_zero:
  assumes "\<forall>x\<in>set xs. \<not> fl_negative x" and "foldr fl_add xs (Fin 0) = Fin s"
  shows "0 \<le> s \<and> (s = 0 \<longrightarrow> (\<forall>x\<in>set xs. x = Fin 0))"
  using assms
proof (induction xs arbitrary: s)
  case Nil
  then show ?case by simp
next
  case (Cons x xs)
  from Cons.prems(2) obtain a b where
    x: "x = Fin a" and r: "foldr fl_add xs (Fin 0) = Fin b" and s: "s = a + b"
    by (auto simp: fl_add_Fin_iff)
  from Cons.prems(1) x have a: "0 \<le> a" by auto
  from Cons.IH[OF _ r] Cons.prems(1) have b: "0 \<le> b" and z: "b = 0 \<longrightarrow> (\<forall>x\<in>set xs. x = Fin 0)"
    by auto
  show ?case using a b z s x by auto
qed

lemma clamp_not_negative:
  "\<forall>x\<in>set (concat (concat (vdata (clamp_negative M)))). \<not> fl_negative x"
  by (auto simp: clamp_negative_def)

lemma zero_sum_all_zero:
  assumes "vol_sum (clamp_negative M) = Fin 0"
  shows "\<forall>x\<in>set (concat (concat (vdata (clamp_negative M)))). x = Fin 0"
  using nonneg_sum_zero[OF clamp_not_negative, of M 0] assms by (simp add: vol_sum_def)

lemma fl_mul_zero_div_zero: "fl_mul (Fin 0) (fl_div (Fin m) (Fin 0)) = NaN"
  by (simp add: inf_times_def)

lemma mass_normalize_zero_sum:
  assumes "vol_sum (clamp_negative M) = Fin 0"
  shows "mass_normalize (Some m) (clamp_negative M) = map3 (\<lambda>v. NaN) (clamp_negative M)"
proof -
  let ?C = "clamp_negative M"
  have z: "\<And>plane row v. plane \<in> set (vdata ?C) \<Longrightarrow> row \<in> set plane \<Longrightarrow> v \<in> set row \<Longrightarrow> v = Fin 0"
    using zero_sum_all_zero[OF assms] by auto
  have "map (map (map (\<lambda>v. fl_mul v (fl_div (Fin m) (Fin 0))))) (vdata ?C)
      = map (map (map (\<lambda>v. NaN))) (vdata ?C)"
  proof (intro map_cong refl)
    fix plane row v
    assume "plane \<in> set (vdata ?C)" "row \<in> set plane" "v \<in> set row"
    then have "v = Fin 0" by (rule z)
    then show "fl_mul v (fl_div (Fin m) (Fin 0)) = NaN"
      by (simp only: fl_mul_zero_div_zero)
  qed
  then show ?thesis
    by (simp add: mass_normalize_def assms map3_def)
qed

lemma wf_vol_nth:
  assumes "wf_vol M" "vshape M = (n0, n1, n2)" "i < n0" "j < n1" "k < n2"
  shows "vdata M ! i ! j ! k \<in> set (concat (concat (vdata M)))"
    and "length (vdata M) = n0" "length (vdata M ! i) = n1" "length (vdata M ! i ! j) = n2"
proof -
  from assms(1,2) have l0: "length (vdata M) = n0"
    and l: "\<forall>plane\<in>set (vdata M). length plane = n1 \<and> (\<forall>row\<in>set plane. length row = n2)"
    by (auto simp: wf_vol_def list_all_iff)
  have p: "vdata M ! i \<in> set (vdata M)" using l0 assms(3) by simp
  with l have l1: "length (vdata M ! i) = n1" by blast
  then have r: "vdata M ! i ! j \<in> set (vdata M ! i)" using assms(4) by simp
  with l p have l2: "length (vdata M ! i ! j) = n2" by blast
  then have v: "vdata M ! i ! j ! k \<in> set (vdata M ! i ! j)" using assms(5) by simp
  show "length (vdata M) = n0" by (rule l0)
  show "length (vdata M ! i) = n1" by (rule l1)
  show "length (vdata M ! i ! j) = n2" by (rule l2)
  show "vdata M ! i ! j ! k \<in> set (concat (concat (vdata M)))"
    using p r v by auto
qed

lemma wf_vol_map3 [simp]: "wf_vol (map3 f M) = wf_vol M"
  by (auto simp: wf_vol_def map3_def list_all_iff split: prod.splits)

lemma map3_const_nth:
  assumes "wf_vol M" "vshape M = (n0, n1, n2)" "i < n0" "j < n1" "k < n2"
  shows "vdata (map3 (\<lambda>v. c) M) ! i ! j ! k = c"
  using wf_vol_nth(2-4)[OF assms] assms(3-5) by simp

text \<open>
  C7 (as amended). \<open>load_protein\<close> has no check on the sum of the voxels. When the
  windowed and clamped volume sums to zero and a total mass is given, the division
  \<open>float(total_mass) / M.sum()\<close> yields an infinity or NaN, every voxel becomes NaN, and
  \<open>load_protein\<close> returns normally, handing an all-NaN volume to \<open>real_to_fspace\<close>.
\<close>

theorem load_protein_zero_sum_is_nan:
  assumes "wf_vol (window tp (readMRC tp path) ''circle'')"
      and "vshape (window tp (readMRC tp path) ''circle'') = (D, D, D)"
      and "length (compute_premultiplier tp D ''linear'' 2) = D"
      and "vol_sum (clamp_negative (window tp (readMRC tp path) ''circle'')) = Fin 0"
  shows "load_protein tp path (Some m) D =
     Inr (pack_structure (real_to_fspace tp
            \<lparr>vshape = (D, D, D), vdata = replicate D (replicate D (replicate D NaN))\<rparr>))"
proof -
  let ?W = "window tp (readMRC tp path) ''circle''"
  let ?C = "clamp_negative ?W"
  have M3: "mass_normalize (Some m) ?C = map3 (\<lambda>v. NaN) ?C"
    by (rule mass_normalize_zero_sum[OF assms(4)])
  have wf: "wf_vol ?C" and sh: "vshape ?C = (D, D, D)"
    using assms(1,2) by (simp_all add: clamp_negative_def)
  have "map (\<lambda>i. map (\<lambda>j. map (\<lambda>k.
            fl_mul (vdata (map3 (\<lambda>v. NaN) ?C) ! i ! j ! k) (f i j k)) [0..<D]) [0..<D]) [0..<D]
      = replicate D (replicate D (replicate D NaN))" for f
  proof -
    have "map (\<lambda>i. map (\<lambda>j. map (\<lambda>k.
            fl_mul (vdata (map3 (\<lambda>v. NaN) ?C) ! i ! j ! k) (f i j k)) [0..<D]) [0..<D]) [0..<D]
      = map (\<lambda>i. map (\<lambda>j. map (\<lambda>k. NaN) [0..<D]) [0..<D]) [0..<D]"
      by (intro map_cong refl) (simp add: map3_const_nth[OF wf sh] del: vdata_map3)
    then show ?thesis by (simp add: map_replicate_const)
  qed
  then show ?thesis
    using load_protein_fft_input[OF assms(2,3), of "Some m"] by (simp add: M3 Let_def)
qed

theorem load_protein_zero_sum_is_nan_witness:
  "wf_vol (window (stub_third_party zero_volume) (readMRC (stub_third_party zero_volume) ''1AON.mrc'') ''circle'')
   \<and> vshape (window (stub_third_party zero_volume) (readMRC (stub_third_party zero_volume) ''1AON.mrc'') ''circle'') = (2, 2, 2)
   \<and> length (compute_premultiplier (stub_third_party zero_volume) 2 ''linear'' 2) = 2
   \<and> vol_sum (clamp_negative (window (stub_third_party zero_volume) (readMRC (stub_third_party zero_volume) ''1AON.mrc'') ''circle'')) = Fin 0
   \<and> load_protein (stub_third_party zero_volume) ''1AON.mrc'' (Some 80000) 2 =
       Inr [[[[[NaN, NaN], [NaN, NaN]], [[NaN, NaN], [NaN, NaN]]],
             [[[NaN, NaN], [NaN, NaN]], [[NaN, NaN], [NaN, NaN]]]]]"
proof -
  let ?tp = "stub_third_party zero_volume"
  have h1: "wf_vol (window ?tp (readMRC ?tp ''1AON.mrc'') ''circle'')"
    by (simp add: stub_third_party_def zero_volume_def wf_vol_def)
  have h2: "vshape (window ?tp (readMRC ?tp ''1AON.mrc'') ''circle'') = (2, 2, 2)"
    by (simp add: stub_third_party_def zero_volume_def)
  have h3: "length (compute_premultiplier ?tp 2 ''linear'' 2) = 2"
    by (simp add: stub_third_party_def)
  have h4: "vol_sum (clamp_negative (window ?tp (readMRC ?tp ''1AON.mrc'') ''circle'')) = Fin 0"
    by (simp add: stub_third_party_def zero_volume_def vol_sum_def clamp_negative_def)
  have r: "real_to_fspace ?tp X = (X, map3 (\<lambda>v. fl_mul v (Fin 0)) X)" for X
    by (simp add: stub_third_party_def)
  have "load_protein ?tp ''1AON.mrc'' (Some 80000) 2 =
       Inr [[[[[NaN, NaN], [NaN, NaN]], [[NaN, NaN], [NaN, NaN]]],
             [[[NaN, NaN], [NaN, NaN]], [[NaN, NaN], [NaN, NaN]]]]]"
    unfolding load_protein_zero_sum_is_nan[OF h1 h2 h3 h4, of 80000] r
    by (simp add: pack_structure_def transpose3_def map3_def numeral_2_eq_2)
  with h1 h2 h3 h4 show ?thesis by simp
qed

text \<open>
  C7 as stated fails: on a single zero voxel with total mass 80000 the call raises
  nothing and returns NaN for both the real and the imaginary channel.
\<close>

theorem load_protein_zero_sum_no_error:
  "load_protein (stub_third_party \<lparr>vshape = (1, 1, 1), vdata = [[[Fin 0]]]\<rparr>) ''1AON.mrc'' (Some 80000) 1
     = Inr [[[[[NaN]]], [[[NaN]]]]]"
  by (simp add: load_protein_def stub_third_party_def premult3_def np_mul3_def reshape_1_1_n_def
      reshape_1_n_1_def reshape_n_1_1_def broadcast_dim_def bcast_index_def clamp_negative_def
      mass_normalize_def vol_sum_def map3_def pack_structure_def transpose3_def inf_times_def Let_def)

subsection \<open>The premultiplier\<close>

text \<open>
  C9. \<open>load_protein\<close> builds the premultiplier as the separable product of the one
  1-D array \<open>p = compute_premultiplier(D, 'linear', 2)\<close> along each of the three axes,
  entry \<open>[i, j, k]\<close> being \<open>(p[k] * p[j]) * p[i]\<close>, and multiplies it exactly once into
  the real-space volume: the array handed to the forward transform \<open>real_to_fspace\<close> has
  the entry \<open>M[i, j, k] * ((p[k] * p[j]) * p[i])\<close>, where \<open>M\<close> is the windowed, clamped
  and mass-normalised volume.
\<close>

theorem load_protein_premultiplier_once:
  assumes "vshape (window tp (readMRC tp path) ''circle'') = (D, D, D)"
      and "length (compute_premultiplier tp D ''linear'' 2) = D"
  shows "premult3 (compute_premultiplier tp D ''linear'' 2) =
           Inr \<lparr>vshape = (D, D, D),
                vdata = map (\<lambda>i. map (\<lambda>j. map (\<lambda>k.
                          fl_mul (fl_mul (compute_premultiplier tp D ''linear'' 2 ! k)
                                         (compute_premultiplier tp D ''linear'' 2 ! j))
                                 (compute_premultiplier tp D ''linear'' 2 ! i))
                          [0..<D]) [0..<D]) [0..<D]\<rparr>
         \<and> load_protein tp path total_mass D =
           (let p = compute_premultiplier tp D ''linear'' 2;
                M3 = mass_normalize total_mass (clamp_negative (window tp (readMRC tp path) ''circle''));
                X = \<lparr>vshape = (D, D, D),
                     vdata = map (\<lambda>i. map (\<lambda>j. map (\<lambda>k.
                               fl_mul (vdata M3 ! i ! j ! k) (fl_mul (fl_mul (p ! k) (p ! j)) (p ! i)))
                               [0..<D]) [0..<D]) [0..<D]\<rparr>
            in Inr (pack_structure (real_to_fspace tp X)))"
  using premult3_separable[of "compute_premultiplier tp D ''linear'' 2"]
    load_protein_fft_input[OF assms, of total_mass] assms(2)
  by simp

theorem load_protein_premultiplier_once_witness:
  "vshape (window (stub_third_party example_volume) (readMRC (stub_third_party example_volume) ''1AON.mrc'') ''circle'') = (2, 2, 2)
   \<and> length (compute_premultiplier (stub_third_party example_volume) 2 ''linear'' 2) = 2
   \<and> premult3 (compute_premultiplier (stub_third_party example_volume) 2 ''linear'' 2) =
       Inr \<lparr>vshape = (2, 2, 2),
            vdata = [[[Fin 1, Fin 2], [Fin 2, Fin 4]], [[Fin 2, Fin 4], [Fin 4, Fin 8]]]\<rparr>
   \<and> load_protein (stub_third_party example_volume) ''1AON.mrc'' (Some 16) 2 =
       Inr [[[[[Fin 2, Fin 8], [Fin 0, Fin 0]], [[Fin 0, Fin 0], [Fin 24, Fin 32]]],
             [[[Fin 0, Fin 0], [Fin 0, Fin 0]], [[Fin 0, Fin 0], [Fin 0, Fin 0]]]]]"
proof -
  let ?tp = "stub_third_party example_volume"
  have h1: "vshape (window ?tp (readMRC ?tp ''1AON.mrc'') ''circle'') = (2, 2, 2)"
    by (simp add: stub_third_party_def example_volume_def)
  have h2: "length (compute_premultiplier ?tp 2 ''linear'' 2) = 2"
    by (simp add: stub_third_party_def)
  have p: "compute_premultiplier ?tp 2 ''linear'' 2 = [Fin 1, Fin 2]"
    by (simp add: stub_third_party_def numeral_2_eq_2)
  have w: "window ?tp (readMRC ?tp ''1AON.mrc'') ''circle'' = example_volume"
    by (simp add: stub_third_party_def)
  have r: "real_to_fspace ?tp X = (X, map3 (\<lambda>v. fl_mul v (Fin 0)) X)" for X
    by (simp add: stub_third_party_def)
  have m: "mass_normalize (Some 16) (clamp_negative example_volume) =
      \<lparr>vshape = (2, 2, 2),
       vdata = [[[Fin 2, Fin 0], [Fin 0, Fin 6]], [[Fin 4, Fin 0], [Fin 0, Fin 4]]]\<rparr>"
    by (simp add: mass_normalize_def clamp_negative_def example_volume_def vol_sum_def map3_def)
  from load_protein_premultiplier_once[OF h1 h2, of "Some 16"]
  have a: "premult3 (compute_premultiplier ?tp 2 ''linear'' 2) =
       Inr \<lparr>vshape = (2, 2, 2),
            vdata = [[[Fin 1, Fin 2], [Fin 2, Fin 4]], [[Fin 2, Fin 4], [Fin 4, Fin 8]]]\<rparr>"
    and b: "load_protein ?tp ''1AON.mrc'' (Some 16) 2 =
       Inr [[[[[Fin 2, Fin 8], [Fin 0, Fin 0]], [[Fin 0, Fin 0], [Fin 24, Fin 32]]],
             [[[Fin 0, Fin 0], [Fin 0, Fin 0]], [[Fin 0, Fin 0], [Fin 0, Fin 0]]]]]"
    unfolding p w r m
    by (simp_all add: pack_structure_def transpose3_def map3_def numeral_2_eq_2 Let_def)
  from h1 h2 a b show ?thesis by simp
qed

section \<open>Properties of the training loop\<close>

subsection \<open>The optimizer step\<close>

lemma opt_zero_grad_both:
  "opt_zero_grad [ProteinLogScale] (opt_zero_grad [ProteinLoc] gr) = (\<lambda>p. None)"
proof
  fix p show "opt_zero_grad [ProteinLogScale] (opt_zero_grad [ProteinLoc] gr) p = None"
    by (cases p) (simp_all add: opt_zero_grad_def)
qed

lemma opt_step_single:
  "opt_step adam gr [p] (st, ps) =
     (case gr p of
        None \<Rightarrow> (st, ps)
      | Some g \<Rightarrow> (snd (adam st p (ps p) g), ps(p := fst (adam st p (ps p) g))))"
  by (simp add: case_prod_beta split: option.splits)




subsection \<open>The outcome of one iteration\<close>

lemma accumulate_None [simp]: "accumulate None g = g"
  by (simp add: accumulate_def)

lemma option_case_id: "(case x of None \<Rightarrow> None | Some v \<Rightarrow> Some v) = x"
  by (cases x) simp_all


subsection \<open>The loop\<close>







lemma train_iteration_without_distribution:
  assumes "observations data \<noteq> []"
      and "fst (env_randint env (rng s) (length (observations data))) < length (observations data)
           \<and> fst (env_randint env (rng s) (length (observations data))) < length (translation_vectors data)
           \<and> fst (env_randint env (rng s) (length (observations data))) < length (rotation_representations data)"
      and "\<And>x R t. snd (env_observation_model env x R t) = None"
  shows "\<exists>s1. train_iteration env data D num_pixels s = Inl (AttributeError, s1)
              \<and> param_value s1 = param_value s \<and> grads s1 = grads s
              \<and> trace s1 = trace s @ [EvSample, EvObserve]"
  using assms
  by (simp add: train_iteration_def Let_def case_prod_beta conditional_loglikelihood_def py_log_prob_def)

subsection \<open>The steps of every iteration\<close>











subsection \<open>The mask and the log-likelihood\<close>

text \<open>
  C2 (the code departs from the claim). The mask is never applied to the
  log-likelihood: for \<open>D = 4\<close> the mask is 0 at index \<open>(0, 0)\<close>, the frequency \<open>(-2, -2)\<close> at
  distance \<open>\<surd>8 > D/2\<close> from the origin, and yet changing the observation at that pixel from
  0 to 1 lowers \<open>conditional_loglikelihood\<close> by \<open>1/10\<close>.
\<close>

theorem loss_sums_over_masked_out_pixels:
  "create_radial_mask (4, 4) (PyNum 2) = Inr [[0, 0, 0, 0], [0, 0, 1, 0], [0, 1, 1, 1], [0, 0, 1, 0]]
   \<and> mask_sum [[0, 0, 0, 0], [0, 0, 1, 0], [0, 1, 1, 1], [0, 0, 1, 0]] = 5
   \<and> conditional_loglikelihood
        (Some \<lparr>loc = [[[0, 0, 0, 0], [0, 0, 0, 0], [0, 0, 0, 0], [0, 0, 0, 0]],
                      [[0, 0, 0, 0], [0, 0, 0, 0], [0, 0, 0, 0], [0, 0, 0, 0]]], scale = 1\<rparr>)
        [[[0, 0, 0, 0], [0, 0, 0, 0], [0, 0, 0, 0], [0, 0, 0, 0]],
         [[0, 0, 0, 0], [0, 0, 0, 0], [0, 0, 0, 0], [0, 0, 0, 0]]] 5
     = Inr (- 32 * ln (sqrt (2 * pi)) / 5)
   \<and> conditional_loglikelihood
        (Some \<lparr>loc = [[[0, 0, 0, 0], [0, 0, 0, 0], [0, 0, 0, 0], [0, 0, 0, 0]],
                      [[0, 0, 0, 0], [0, 0, 0, 0], [0, 0, 0, 0], [0, 0, 0, 0]]], scale = 1\<rparr>)
        [[[1, 0, 0, 0], [0, 0, 0, 0], [0, 0, 0, 0], [0, 0, 0, 0]],
         [[0, 0, 0, 0], [0, 0, 0, 0], [0, 0, 0, 0], [0, 0, 0, 0]]] 5
     = Inr (- 32 * ln (sqrt (2 * pi)) / 5 - 1 / 10)"
proof -
  have u: "[0..<4] = [0, 1, 2, 3]" by (simp add: upt_rec)
  have m: "create_radial_mask (4, 4) (PyNum 2) = Inr [[0, 0, 0, 0], [0, 0, 1, 0], [0, 1, 1, 1], [0, 0, 1, 0]]"
    using create_radial_mask_square[of 2 4] by (simp add: u)
  have s: "mask_sum [[0, 0, 0, 0], [0, 0, 1, 0], [0, 1, 1, 1], [0, 0, 1, 0]] = 5"
    by (simp add: mask_sum_def)
  show ?thesis
    unfolding m s
    by (simp add: conditional_loglikelihood_def py_log_prob_def normal_log_prob_def tensor_sum_def
        log_prob_elem_def)
qed

section \<open>Properties of the operators modelled from the specification\<close>

lemma map_index_from_compose:
  "map_index_from n g (map_index_from n f xs) = map_index_from n (\<lambda>i x. g i (f i x)) xs"
  by (induction xs arbitrary: n) simp_all

lemma map_index_from_id: "(\<And>i x. f i x = x) \<Longrightarrow> map_index_from n f xs = xs"
  by (induction xs arbitrary: n) simp_all

lemma map_index_from_cong:
  "(\<And>i x. f i x = g i x) \<Longrightarrow> map_index_from n f xs = map_index_from n g xs"
  by (induction xs arbitrary: n) simp_all

lemma map_map_index_from: "map h (map_index_from n f xs) = map_index_from n (\<lambda>i x. h (f i x)) xs"
  by (induction xs arbitrary: n) simp_all

lemma map_index_from_const: "map_index_from n (\<lambda>i x. h x) xs = map h xs"
  by (induction xs arbitrary: n) simp_all

lemma phase_ramp_inverse: "phase_ramp D (tx, ty) u v * phase_ramp D (- tx, - ty) u v = 1"
proof -
  define w where "w = 2 * pi * (u * tx + v * ty) / real D"
  have a: "- 2 * pi * (u * tx + v * ty) / real D = - w"
    by (simp add: w_def)
  have "u * - tx + v * - ty = - (u * tx + v * ty)" by simp
  then have b: "- 2 * pi * (u * - tx + v * - ty) / real D = w"
    by (simp only: w_def mult_minus_left mult_minus_right minus_minus)
  show ?thesis
    by (simp only: phase_ramp_def fst_conv snd_conv a b cis_mult) simp
qed

lemma phase_ramp_norm: "cmod (phase_ramp D t u v) = 1"
  by (simp add: phase_ramp_def)

text \<open>
  C4. Shifting a slice by \<open>(tx, ty)\<close> and then by \<open>(-tx, -ty)\<close> returns the original slice,
  and the magnitude of every coefficient of the shifted slice equals the magnitude of the
  corresponding coefficient of the input: coefficient \<open>(u, v)\<close> is multiplied by
  \<open>exp(-2\<pi>i\<cdot>(u\<cdot>tx + v\<cdot>ty)/D)\<close>, which has modulus 1. (Exact arithmetic.)
\<close>

theorem translation_phase_shift_inverse_and_magnitude:
  "TranslationPhaseShifter D (TranslationPhaseShifter D slice (tx, ty)) (- tx, - ty) = slice
   \<and> map (map cmod) (TranslationPhaseShifter D slice (tx, ty)) = map (map cmod) slice
   \<and> TranslationPhaseShifter D slice (tx, ty) =
       map_index_from 0 (\<lambda>i row. map_index_from 0 (\<lambda>j c.
         c * exp (- 2 * of_real pi * \<i> * of_real ((real j - real (D div 2)) * tx + (real i - real (D div 2)) * ty)
                  / of_real (real D))) row) slice"
proof (intro conjI)
  have "\<And>c u v. c * phase_ramp D (tx, ty) u v * phase_ramp D (- tx, - ty) u v = c"
    by (simp add: mult.assoc phase_ramp_inverse del: mult_minus_left mult_minus_right)
  then show "TranslationPhaseShifter D (TranslationPhaseShifter D slice (tx, ty)) (- tx, - ty) = slice"
    by (simp add: TranslationPhaseShifter_def map_index_from_compose map_index_from_id)
next
  show "map (map cmod) (TranslationPhaseShifter D slice (tx, ty)) = map (map cmod) slice"
    by (simp add: TranslationPhaseShifter_def map_map_index_from norm_mult phase_ramp_norm
        map_index_from_const)
next
  have e: "phase_ramp D (tx, ty) u v =
      exp (- 2 * of_real pi * \<i> * of_real (u * tx + v * ty) / of_real (real D))" for u v
  proof -
    have "- 2 * of_real pi * \<i> * of_real (u * tx + v * ty) / of_real (real D)
        = \<i> * of_real (- 2 * pi * (u * tx + v * ty) / real D)"
      by simp
    then show ?thesis
      by (simp only: phase_ramp_def cis_conv_exp fst_conv snd_conv)
  qed
  show "TranslationPhaseShifter D slice (tx, ty) =
       map_index_from 0 (\<lambda>i row. map_index_from 0 (\<lambda>j c.
         c * exp (- 2 * of_real pi * \<i> * of_real ((real j - real (D div 2)) * tx + (real i - real (D div 2)) * ty)
                  / of_real (real D))) row) slice"
    by (simp only: TranslationPhaseShifter_def e centered_index_def)
qed

text \<open>
  C3. For every volume and pose, the observation model with \<open>\<sigma> = 0\<close> returns the noiseless
  projection together with no distribution (\<open>None\<close>), on which \<open>log_prob\<close> is not available
  (the call raises \<open>AttributeError\<close>); the distribution is absent exactly when \<open>\<sigma> > 0\<close> fails,
  and the projection does not depend on \<open>\<sigma>\<close>.
\<close>

theorem observation_model_sigma_zero:
  "ObservationModel CentralSliceProjector PhaseShifter 0 volume rotation translation =
     (PhaseShifter (CentralSliceProjector volume rotation) translation, None)
   \<and> (\<forall>\<sigma>. (snd (ObservationModel CentralSliceProjector PhaseShifter \<sigma> volume rotation translation) = None)
          = (\<not> 0 < \<sigma>))
   \<and> (\<forall>\<sigma>. fst (ObservationModel CentralSliceProjector PhaseShifter \<sigma> volume rotation translation)
          = PhaseShifter (CentralSliceProjector volume rotation) translation)
   \<and> (\<forall>P S v r t x. py_log_prob (snd (ObservationModel P S 0 v r t)) x = Inl AttributeError)"
  by (simp add: ObservationModel_def Let_def py_log_prob_def)

lemma mat_mul_assoc: "mat_mul (mat_mul A B) C = mat_mul A (mat_mul B C)"
  by (cases A rule: mat_transpose.cases; cases B rule: mat_transpose.cases;
      cases C rule: mat_transpose.cases) (simp add: algebra_simps)

lemma mat_transpose_mul: "mat_transpose (mat_mul A B) = mat_mul (mat_transpose B) (mat_transpose A)"
  by (cases A rule: mat_transpose.cases; cases B rule: mat_transpose.cases) (simp add: algebra_simps)

lemma mat_mul_identity [simp]: "mat_mul A mat_identity = A" "mat_mul mat_identity A = A"
  by (cases A rule: mat_transpose.cases; simp add: mat_identity_def)+

lemma mat_det_mul: "mat_det (mat_mul A B) = mat_det A * mat_det B"
  by (cases A rule: mat_transpose.cases; cases B rule: mat_transpose.cases) (simp add: algebra_simps)


lemma sin_cos_sq: "sin a * sin a + cos a * cos a = (1::real)" "cos a * cos a + sin a * sin a = (1::real)"
  using sin_cos_squared_add[of a] by (simp_all add: power2_eq_square add.commute)

lemma elementary_rotation_orthonormal: "orthonormal (elementary_rotation ax a)"
  by (cases ax) (simp_all add: orthonormal_def mat_identity_def sin_cos_sq)

lemma orthonormal_mul: "orthonormal A \<Longrightarrow> orthonormal B \<Longrightarrow> orthonormal (mat_mul A B)"
proof -
  assume A: "orthonormal A" and B: "orthonormal B"
  have "mat_mul (mat_mul A B) (mat_transpose (mat_mul A B))
      = mat_mul A (mat_mul (mat_mul B (mat_transpose B)) (mat_transpose A))"
    by (simp only: mat_transpose_mul mat_mul_assoc)
  also have "\<dots> = mat_identity"
    using A B by (simp add: orthonormal_def)
  finally show ?thesis
    using A B by (simp add: orthonormal_def mat_det_mul)
qed

text \<open>
  C5. For every batch of Euler-angle triples, and whichever three axes the convention
  composes, \<open>rotmat3D_EA\<close> returns one matrix per triple, each with \<open>R \<cdot> R\<^sup>T\<close> equal to the
  identity and determinant \<open>+1\<close>. (Exact arithmetic, so no tolerance is needed.)
\<close>

theorem rotmat3D_EA_orthonormal:
  "length (rotmat3D_EA convention batch) = length batch
   \<and> (\<forall>R\<in>set (rotmat3D_EA convention batch).
         mat_mul R (mat_transpose R) = mat_identity \<and> mat_det R = 1)"
proof -
  obtain ax1 ax2 ax3 where c: "convention = (ax1, ax2, ax3)" by (cases convention)
  have "orthonormal (mat_mul (mat_mul (elementary_rotation ax1 phi) (elementary_rotation ax2 theta))
                             (elementary_rotation ax3 psi))" for phi theta psi
    by (intro orthonormal_mul elementary_rotation_orthonormal)
  then show ?thesis
    by (auto simp: rotmat3D_EA_def c orthonormal_def)
qed

theorem rotmat3D_EA_orthonormal_witness:
  "rotmat3D_EA (AxisZ, AxisY, AxisZ) [(pi / 2, 0, 0)] = [((0, - 1, 0), (1, 0, 0), (0, 0, 1))]
   \<and> mat_mul ((0, - 1, 0), (1, 0, 0), (0, 0, 1)) (mat_transpose ((0, - 1, 0), (1, 0, 0), (0, 0, 1)))
       = mat_identity
   \<and> mat_det ((0, - 1, 0), (1, 0, 0), (0, 0, 1)) = 1"
proof -
  have r: "rotmat3D_EA (AxisZ, AxisY, AxisZ) [(pi / 2, 0, 0)] = [((0, - 1, 0), (1, 0, 0), (0, 0, 1))]"
    by (simp add: rotmat3D_EA_def)
  from rotmat3D_EA_orthonormal[of "(AxisZ, AxisY, AxisZ)" "[(pi / 2, 0, 0)]"]
  have "\<forall>R\<in>set [((0, - 1, 0), (1, 0, 0), (0, 0, 1)) :: mat3].
          mat_mul R (mat_transpose R) = mat_identity \<and> mat_det R = 1"
    unfolding r by blast
  with r show ?thesis by simp
qed

text \<open>
  With the observation model of the specification at \<open>\<sigma> = 0\<close> in the place of the
  notebook's \<open>observation_model\<close>, an iteration of the training loop stops with
  \<open>AttributeError\<close> at the log-likelihood.
\<close>

lemma train_iteration_sigma_zero:
  assumes "observations data \<noteq> []"
      and "fst (env_randint env (rng s) (length (observations data))) < length (observations data)
           \<and> fst (env_randint env (rng s) (length (observations data))) < length (translation_vectors data)
           \<and> fst (env_randint env (rng s) (length (observations data))) < length (rotation_representations data)"
      and "env_observation_model env = ObservationModel P S 0"
  shows "\<exists>s1. train_iteration env data D num_pixels s = Inl (AttributeError, s1)
              \<and> param_value s1 = param_value s \<and> grads s1 = grads s
              \<and> trace s1 = trace s @ [EvSample, EvObserve]"
  by (rule train_iteration_without_distribution[OF assms(1,2)])
     (simp add: assms(3) ObservationModel_def Let_def)

end
